theory Spec2Isabelle
  imports Main "HOL-Library.Sublist"
begin

section \<open>The logging helpers of hhnk_research_tools/logger.py\<close>

text \<open>
  The module builds a configuration dictionary for Python's logging package
  (\<open>get_logconfig_dict\<close>), attaches file and console handlers to a logger
  (\<open>add_file_handler\<close>, \<open>_add_or_update_streamhandler_format\<close>) and hands out loggers under
  shortened names (\<open>get_logger\<close>). Each of these functions is translated below; what they
  call in the standard library is modelled next to them, as far as they use it.
\<close>

subsection \<open>Module constants and errors\<close>

definition LOGFORMAT :: string where
  "LOGFORMAT = ''%(asctime)s|%(levelname)-8s| %(name)s:%(lineno)-4d| %(message)s''"

definition DATEFMT :: string where
  "DATEFMT = ''%H:%M:%S''"

text \<open>
  The exceptions that the translated code can raise, as values. The strings are the
  messages, those of the standard library in short.
\<close>

datatype error = TypeError string | ValueError string | AttributeError string

subsection \<open>The configuration dictionary\<close>

text \<open>
  The values stored in the nested dictionary are strings, integers, booleans and lists of
  strings. A dictionary is a map from its keys; the nested dictionaries of the \<open>loggers\<close>,
  \<open>handlers\<close> and \<open>formatters\<close> sections are maps to maps.
\<close>

datatype cfgval = CStr string | CInt int | CBool bool | CList "string list"

type_synonym entry = "string \<rightharpoonup> cfgval"

record logconfig =
  version :: int
  disable_existing_loggers :: bool
  cfg_loggers :: "string \<rightharpoonup> entry"
  cfg_handlers :: "string \<rightharpoonup> entry"
  cfg_formatters :: "string \<rightharpoonup> entry"

text \<open>
  A value found under a key of \<open>level_dict\<close>. The code accepts a list (of package names) and
  nothing else; the other constructors stand for what a caller may pass instead.
\<close>

datatype pyvalue = PyList "string list" | PyTuple "string list" | PyStr string | PyInt int | PyNone

fun is_list :: "pyvalue \<Rightarrow> bool" where
  "is_list (PyList _) = True"
| "is_list _ = False"

text \<open>
  \<open>level_dict\<close> is a dictionary, iterated by \<open>items()\<close> in insertion order: an association
  list (with distinct keys, for a dictionary). \<open>None\<close> is the default.
\<close>

type_synonym level_dict = "(string \<times> pyvalue) list"

text \<open>The dictionary literal at the head of \<open>get_logconfig_dict\<close> (lines 33 to 67).\<close>

definition initial_logconfig :: "string \<Rightarrow> logconfig" where
  "initial_logconfig level_root =
     \<lparr> version = 1,
       disable_existing_loggers = False,
       cfg_loggers =
         [[] \<mapsto> [''level'' \<mapsto> CStr level_root,
                 ''handlers'' \<mapsto> CList [''debug_console_handler'', ''stderr'']]],
       cfg_handlers =
         [''null'' \<mapsto> [''class'' \<mapsto> CStr ''logging.NullHandler''],
          ''debug_console_handler'' \<mapsto>
            [''level'' \<mapsto> CStr ''NOTSET'',
             ''formatter'' \<mapsto> CStr ''time_level_name'',
             ''class'' \<mapsto> CStr ''logging.StreamHandler'',
             ''stream'' \<mapsto> CStr ''ext://sys.stdout''],
          ''stderr'' \<mapsto>
            [''level'' \<mapsto> CStr ''ERROR'',
             ''formatter'' \<mapsto> CStr ''time_level_name'',
             ''class'' \<mapsto> CStr ''logging.StreamHandler'',
             ''stream'' \<mapsto> CStr ''ext://sys.stderr'']],
       cfg_formatters =
         [''time_level_name'' \<mapsto> [''format'' \<mapsto> CStr LOGFORMAT, ''datefmt'' \<mapsto> CStr DATEFMT]] \<rparr>"

text \<open>The entry written for a package, the dictionary with the one key \<open>level\<close>.\<close>

definition level_entry :: "string \<Rightarrow> entry" where
  "level_entry loglevel = [''level'' \<mapsto> CStr loglevel]"

text \<open>The inner loop, \<open>for pkg in level_list\<close>: each package gets an entry of its own.\<close>

fun add_pkgs :: "string \<Rightarrow> string list \<Rightarrow> (string \<rightharpoonup> entry) \<Rightarrow> (string \<rightharpoonup> entry)" where
  "add_pkgs loglevel [] L = L"
| "add_pkgs loglevel (pkg # rest) L = add_pkgs loglevel rest (L(pkg \<mapsto> level_entry loglevel))"

text \<open>
  The outer loop, \<open>for loglevel, level_list in level_dict.items()\<close>: a value that is not a
  list raises \<open>TypeError\<close> when the loop reaches it.
\<close>

fun apply_levels :: "level_dict \<Rightarrow> (string \<rightharpoonup> entry) \<Rightarrow> error + (string \<rightharpoonup> entry)" where
  "apply_levels [] L = Inr L"
| "apply_levels ((loglevel, level_list) # rest) L =
     (case level_list of
        PyList pkgs \<Rightarrow> apply_levels rest (add_pkgs loglevel pkgs L)
      | _ \<Rightarrow> Inl (TypeError ''Level_dict should provide lists.''))"

text \<open>The handler definition added under \<open>if log_filepath\<close> (lines 85 to 92).\<close>

definition file_handler_entry :: "string \<Rightarrow> entry" where
  "file_handler_entry log_filepath =
     [''level'' \<mapsto> CStr ''INFO'',
      ''formatter'' \<mapsto> CStr ''time_level_name'',
      ''class'' \<mapsto> CStr ''logging.handlers.TimedRotatingFileHandler'',
      ''when'' \<mapsto> CStr ''D'',
      ''backupCount'' \<mapsto> CInt 7,
      ''filename'' \<mapsto> CStr log_filepath]"

text \<open>
  \<open>get_logconfig_dict(level_root, level_dict, log_filepath)\<close>. Both \<open>if level_dict\<close> and
  \<open>if log_filepath\<close> test truthiness: \<open>None\<close>, the empty dictionary and the empty string
  skip the branch.
\<close>

definition get_logconfig_dict ::
  "string \<Rightarrow> level_dict option \<Rightarrow> string option \<Rightarrow> error + logconfig" where
  "get_logconfig_dict level_root level_dict log_filepath =
     (let logconfig_dict = initial_logconfig level_root in
      case (case level_dict of
              None \<Rightarrow> Inr (cfg_loggers logconfig_dict)
            | Some [] \<Rightarrow> Inr (cfg_loggers logconfig_dict)
            | Some items \<Rightarrow> apply_levels items (cfg_loggers logconfig_dict)) of
        Inl e \<Rightarrow> Inl e
      | Inr L \<Rightarrow>
          (let logconfig_dict = logconfig_dict\<lparr>cfg_loggers := L\<rparr> in
           case log_filepath of
             None \<Rightarrow> Inr logconfig_dict
           | Some p \<Rightarrow>
               if p \<noteq> [] then
                 Inr (logconfig_dict\<lparr>cfg_handlers :=
                        (cfg_handlers logconfig_dict)(''info_rotating_file_handler'' \<mapsto>
                           file_handler_entry p)\<rparr>)
               else Inr logconfig_dict))"

text \<open>
  \<open>set_default_logconfig\<close> builds the dictionary and then hands it to
  \<open>logging.config.dictConfig\<close>, which installs it in the process-wide logging state. That
  state and \<open>dictConfig\<close> belong to the standard library: they are parameters here. An
  exception of \<open>get_logconfig_dict\<close> leaves before \<open>dictConfig\<close> is called.
\<close>

definition set_default_logconfig ::
  "('g \<Rightarrow> logconfig \<Rightarrow> 'g) \<Rightarrow> 'g \<Rightarrow> string \<Rightarrow> level_dict option \<Rightarrow> string option \<Rightarrow> (error + unit) \<times> 'g" where
  "set_default_logconfig dictConfig g level_root level_dict log_filepath =
     (case get_logconfig_dict level_root level_dict log_filepath of
        Inl e \<Rightarrow> (Inl e, g)
      | Inr log_config \<Rightarrow> (Inr (), dictConfig g log_config))"

text \<open>
  The claims about the dictionary speak of the level a package ends up with. When a package
  is listed under several keys of \<open>level_dict\<close>, each assignment overwrites the one before:
  \<open>final_level\<close> is the key of the last item, in iteration order, that lists the package
  (a description of the outcome, to state the properties with; the code is \<open>apply_levels\<close>).
\<close>

fun final_level :: "level_dict \<Rightarrow> string \<Rightarrow> string option" where
  "final_level [] pkg = None"
| "final_level ((loglevel, level_list) # rest) pkg =
     (case final_level rest pkg of
        Some l \<Rightarrow> Some l
      | None \<Rightarrow>
          (case level_list of
             PyList pkgs \<Rightarrow> if pkg \<in> set pkgs then Some loglevel else None
           | _ \<Rightarrow> None))"

text \<open>The level stored for a logger name in a result of \<open>get_logconfig_dict\<close>, if any.\<close>

definition result_level :: "error + logconfig \<Rightarrow> string \<Rightarrow> cfgval option" where
  "result_level r name =
     (case r of
        Inl e \<Rightarrow> None
      | Inr cfg \<Rightarrow> (case cfg_loggers cfg name of None \<Rightarrow> None | Some e \<Rightarrow> e ''level''))"


subsection \<open>Handlers and loggers of the logging package\<close>

text \<open>
  The handler classes the module meets. \<open>FileHandler\<close> derives from \<open>StreamHandler\<close>, and
  both rotating handlers derive from \<open>FileHandler\<close>; \<open>NullHandler\<close> stands for the handlers
  that are no stream handlers.
\<close>

datatype handler_class =
  NullHandler | StreamHandler | FileHandler | RotatingFileHandler | TimedRotatingFileHandler

text \<open>
  A handler object: its class, level, formatter (\<open>fmt\<close> and \<open>datefmt\<close>), filters, the name
  of its open stream (\<open>handler.stream.name\<close>; \<open>None\<close> when \<open>handler.stream\<close> is \<open>None\<close>, as for
  a file handler created with \<open>delay=True\<close>), and for file handlers the mode and, when
  rotating by size, \<open>(maxBytes, backupCount)\<close>. A filter is an opaque object, a number here.
\<close>

record handler =
  hclass :: handler_class
  hlevel :: int
  formatter :: "(string \<times> string) option"
  filters :: "nat list"
  stream_name :: "string option"
  mode :: "string option"
  rotation :: "(int \<times> int) option"

text \<open>\<open>isinstance(handler, logging.StreamHandler)\<close>.\<close>

definition isinstance_StreamHandler :: "handler \<Rightarrow> bool" where
  "isinstance_StreamHandler h \<longleftrightarrow>
     hclass h \<in> {StreamHandler, FileHandler, RotatingFileHandler, TimedRotatingFileHandler}"

text \<open>\<open>isinstance(handler, (logging.FileHandler, RotatingFileHandler))\<close>.\<close>

definition isinstance_FileHandler :: "handler \<Rightarrow> bool" where
  "isinstance_FileHandler h \<longleftrightarrow>
     hclass h \<in> {FileHandler, RotatingFileHandler, TimedRotatingFileHandler}"

text \<open>A console sink is a stream handler that is not file-backed.\<close>

definition is_console :: "handler \<Rightarrow> bool" where
  "is_console h \<longleftrightarrow> hclass h = StreamHandler"

text \<open>
  A logger: its name, its own level (\<open>logger.level\<close>, 0 for \<open>NOTSET\<close>) and its handler list.
  The handlers of a list are distinct objects (\<open>addHandler\<close> never adds an object twice).
\<close>

record logger =
  lname :: string
  level :: int
  handlers :: "handler list"


text \<open>
  A level given to \<open>setLevel\<close> is an integer or a level name; \<open>logging._checkLevel\<close> turns a
  name into its number and raises \<open>ValueError\<close> for a name it does not know.
\<close>

datatype levelarg = LvlInt int | LvlName string

definition nameToLevel :: "string \<rightharpoonup> int" where
  "nameToLevel =
     [''CRITICAL'' \<mapsto> 50, ''FATAL'' \<mapsto> 50, ''ERROR'' \<mapsto> 40, ''WARN'' \<mapsto> 30, ''WARNING'' \<mapsto> 30,
      ''INFO'' \<mapsto> 20, ''DEBUG'' \<mapsto> 10, ''NOTSET'' \<mapsto> 0]"

fun checkLevel :: "levelarg \<Rightarrow> error + int" where
  "checkLevel (LvlInt i) = Inr i"
| "checkLevel (LvlName n) =
     (case nameToLevel n of None \<Rightarrow> Inl (ValueError (''Unknown level: '' @ n)) | Some v \<Rightarrow> Inr v)"

text \<open>
  The constructors. \<open>FileHandler\<close> opens \<open>os.path.abspath(filename)\<close> at once, so that is the
  name of its stream; \<open>abspath\<close> depends on the working directory and is a parameter.
  \<open>RotatingFileHandler\<close> replaces the mode by \<open>a\<close> when \<open>maxBytes\<close> is positive. Opening the
  file is taken to succeed.
\<close>

definition new_StreamHandler :: handler where
  "new_StreamHandler =
     \<lparr> hclass = StreamHandler, hlevel = 0, formatter = None, filters = [],
       stream_name = Some ''<stdout>'', mode = None, rotation = None \<rparr>"

definition new_FileHandler :: "(string \<Rightarrow> string) \<Rightarrow> string \<Rightarrow> string \<Rightarrow> handler" where
  "new_FileHandler abspath filename m =
     \<lparr> hclass = FileHandler, hlevel = 0, formatter = None, filters = [],
       stream_name = Some (abspath filename), mode = Some m, rotation = None \<rparr>"

definition new_RotatingFileHandler ::
  "(string \<Rightarrow> string) \<Rightarrow> string \<Rightarrow> string \<Rightarrow> int \<Rightarrow> int \<Rightarrow> handler" where
  "new_RotatingFileHandler abspath filename m mb bc =
     \<lparr> hclass = RotatingFileHandler, hlevel = 0, formatter = None, filters = [],
       stream_name = Some (abspath filename), mode = Some (if mb > 0 then ''a'' else m),
       rotation = Some (mb, bc) \<rparr>"

text \<open>
  \<open>logger.addHandler\<close> with a handler just created (not yet in the list) appends it.
  \<open>logger.removeHandler(handler)\<close>, for the handler found at position \<open>i\<close> of the list,
  takes that element out (the objects of the list are distinct).
\<close>

definition addHandler :: "logger \<Rightarrow> handler \<Rightarrow> logger" where
  "addHandler lg h = lg\<lparr>handlers := handlers lg @ [h]\<rparr>"

definition remove_at :: "nat \<Rightarrow> 'a list \<Rightarrow> 'a list" where
  "remove_at i xs = take i xs @ drop (Suc i) xs"

subsection \<open>add_file_handler\<close>

text \<open>
  The \<open>filepath\<close> argument is a \<open>str\<close> or a \<open>pathlib.Path\<close>; \<open>PathObj p\<close> is the path whose
  string form is \<open>p\<close>. \<open>str(filepath)\<close> is that string in both cases.
\<close>

datatype filepath = StrPath string | PathObj string

fun str_of :: "filepath \<Rightarrow> string" where
  "str_of (StrPath s) = s"
| "str_of (PathObj p) = p"

text \<open>
  The test \<open>Path(handler.stream.name) == filepath\<close>. A \<open>Path\<close> never equals a \<open>str\<close>
  (\<open>Path.__eq__\<close> returns \<open>NotImplemented\<close> for an operand that is no path, and the
  comparison falls back to identity). Two paths are equal when their string forms are; the
  stream name of a file handler is an absolute, normalised name, which \<open>Path\<close> keeps as it is.
\<close>

fun path_eq :: "string \<Rightarrow> filepath \<Rightarrow> bool" where
  "path_eq stream_nm (StrPath s) = False"
| "path_eq stream_nm (PathObj p) = (stream_nm = p)"

text \<open>
  The loop \<open>for handler in logger.handlers\<close> of lines 148 to 152. The list is changed while
  it is iterated: Python's list iterator keeps a position \<open>i\<close>, stops when \<open>i\<close> reaches the
  current length, and moves on by one after each element, also after a removal.
  \<open>handler.stream.name\<close> raises \<open>AttributeError\<close> when the stream is \<open>None\<close>.
\<close>

function remove_existing :: "filepath \<Rightarrow> nat \<Rightarrow> handler list \<Rightarrow> error + handler list" where
  "remove_existing fp i hs =
     (if i < length hs then
        (let h = hs ! i in
         if isinstance_FileHandler h then
           (case stream_name h of
              None \<Rightarrow> Inl (AttributeError ''NoneType object has no attribute name'')
            | Some nm \<Rightarrow>
                if path_eq nm fp then remove_existing fp (Suc i) (remove_at i hs)
                else remove_existing fp (Suc i) hs)
         else remove_existing fp (Suc i) hs)
      else Inr hs)"
  by pat_completeness auto
termination
  by (relation "measure (\<lambda>(fp, i, hs). length hs - i)") (auto simp: remove_at_def)

declare remove_existing.simps [simp del]

text \<open>The keyword arguments of \<open>add_file_handler\<close> and their defaults.\<close>

record file_handler_args =
  filemode :: string
  filelevel :: levelarg
  fmt :: string
  datefmt :: string
  maxBytes :: int
  backupCount :: int
  rotate :: bool
  logfilter :: "nat option"

definition default_args :: file_handler_args where
  "default_args =
     \<lparr> filemode = ''a'', filelevel = LvlName [], fmt = LOGFORMAT,
       datefmt = ''%Y-%m-%d %H:%M:%S'', maxBytes = 10 * 1024 * 1024, backupCount = 5,
       rotate = False, logfilter = None \<rparr>"

text \<open>
  \<open>add_file_handler(logger, filepath, ...)\<close>, returning the logger as the call leaves it,
  or the exception when it raises (what the call had removed by then is not reported).
  The \<open>logger.debug\<close> calls write a message and change nothing of the logger.
\<close>

definition add_file_handler ::
  "(string \<Rightarrow> string) \<Rightarrow> logger \<Rightarrow> filepath \<Rightarrow> file_handler_args \<Rightarrow> error + logger" where
  "add_file_handler abspath lg fp args =
     (case remove_existing fp 0 (handlers lg) of
        Inl e \<Rightarrow> Inl e
      | Inr hs \<Rightarrow>
          (let lg = lg\<lparr>handlers := hs\<rparr>;
               file_handler =
                 (if rotate args then new_FileHandler abspath (str_of fp) (filemode args)
                  else new_RotatingFileHandler abspath (str_of fp) (filemode args)
                         (maxBytes args) (backupCount args));
               file_handler = file_handler\<lparr>formatter := Some (fmt args, datefmt args)\<rparr>;
               lv = (if filelevel args = LvlName [] then LvlInt (level lg) else filelevel args)
           in case checkLevel lv of
                Inl e \<Rightarrow> Inl e
              | Inr l \<Rightarrow>
                  (let file_handler = file_handler\<lparr>hlevel := l\<rparr>;
                       file_handler =
                         (case logfilter args of
                            None \<Rightarrow> file_handler
                          | Some f \<Rightarrow> file_handler\<lparr>filters := filters file_handler @ [f]\<rparr>)
                   in Inr (addHandler lg file_handler))))"

text \<open>Running a second call on the result of a first one: an exception ends the sequence.\<close>

definition and_then :: "error + 'a \<Rightarrow> ('a \<Rightarrow> error + 'b) \<Rightarrow> error + 'b" where
  "and_then r f = (case r of Inl e \<Rightarrow> Inl e | Inr x \<Rightarrow> f x)"

text \<open>The file-backed sinks of a logger whose stream has a given name.\<close>

definition file_sinks_at :: "string \<Rightarrow> logger \<Rightarrow> handler list" where
  "file_sinks_at nm lg =
     filter (\<lambda>h. isinstance_FileHandler h \<and> stream_name h = Some nm) (handlers lg)"

subsection \<open>The console handler helper\<close>

text \<open>
  The loop of \<open>_add_or_update_streamhandler_format\<close>: the first handler that is an instance
  of \<open>StreamHandler\<close> gets the new formatter and the function returns; \<open>None\<close> when the loop
  ends without having found one.
\<close>

fun update_first_stream :: "string \<times> string \<Rightarrow> handler list \<Rightarrow> handler list option" where
  "update_first_stream f [] = None"
| "update_first_stream f (h # hs) =
     (if isinstance_StreamHandler h then Some (h\<lparr>formatter := Some f\<rparr> # hs)
      else map_option ((#) h) (update_first_stream f hs))"

definition add_or_update_streamhandler_format :: "logger \<Rightarrow> string \<Rightarrow> string \<Rightarrow> logger" where
  "add_or_update_streamhandler_format lg fmt' datefmt' =
     (case update_first_stream (fmt', datefmt') (handlers lg) of
        Some hs \<Rightarrow> lg\<lparr>handlers := hs\<rparr>
      | None \<Rightarrow> addHandler lg (new_StreamHandler\<lparr>formatter := Some (fmt', datefmt')\<rparr>))"


subsection \<open>get_logger\<close>




text \<open>
  The registry behind \<open>logging.getLogger\<close>: the root logger and a dictionary of the loggers
  created so far. \<open>getLogger\<close> returns the root logger for an empty name and for the root's
  own name, the registered logger for a known name, and registers a new logger (level
  \<open>NOTSET\<close>, no handlers) for a name it has not seen.
\<close>

record manager =
  root :: logger
  loggerDict :: "string \<rightharpoonup> logger"




section \<open>Properties of the configuration builder\<close>

lemma apply_levels_error:
  "(lv, v) \<in> set ld \<Longrightarrow> \<not> is_list v \<Longrightarrow>
   apply_levels ld L = Inl (TypeError ''Level_dict should provide lists.'')"
proof (induction ld arbitrary: L)
  case Nil
  then show ?case by simp
next
  case (Cons a ld)
  obtain k w where a: "a = (k, w)" by (cases a)
  show ?case
  proof (cases w)
    case (PyList pkgs)
    with Cons a show ?thesis by auto
  qed (simp_all add: a)
qed

lemma apply_levels_ok:
  "\<forall>(lv, v) \<in> set ld. is_list v \<Longrightarrow> \<exists>L'. apply_levels ld L = Inr L'"
proof (induction ld arbitrary: L)
  case Nil
  then show ?case by simp
next
  case (Cons a ld)
  obtain k w where a: "a = (k, w)" by (cases a)
  with Cons.prems obtain pkgs where w: "w = PyList pkgs" by (cases w) auto
  from Cons.prems have "\<forall>(lv, v) \<in> set ld. is_list v" by simp
  from Cons.IH [OF this] show ?case by (simp add: a w)
qed


lemma get_logconfig_dict_error:
  assumes "(lv, v) \<in> set ld" and "\<not> is_list v"
  shows "get_logconfig_dict level_root (Some ld) log_filepath =
         Inl (TypeError ''Level_dict should provide lists.'')"
proof -
  from assms(1) obtain a rest where ld: "ld = a # rest" by (cases ld) auto
  have "apply_levels (a # rest) (cfg_loggers (initial_logconfig level_root)) =
        Inl (TypeError ''Level_dict should provide lists.'')"
    using apply_levels_error [OF assms] by (simp add: ld)
  then show ?thesis by (simp add: get_logconfig_dict_def ld Let_def)
qed

lemma get_logconfig_dict_ok:
  assumes "\<forall>(lv, v) \<in> set ld. is_list v"
  shows "\<exists>cfg. get_logconfig_dict level_root (Some ld) log_filepath = Inr cfg"
proof -
  obtain L' where "apply_levels ld (cfg_loggers (initial_logconfig level_root)) = Inr L'"
    using apply_levels_ok [OF assms] by blast
  then show ?thesis
    by (cases ld) (auto simp: get_logconfig_dict_def Let_def split: option.splits)
qed

lemma get_logconfig_dict_handlers:
  assumes "get_logconfig_dict level_root level_dict log_filepath = Inr cfg"
  shows "cfg_handlers cfg =
         (case log_filepath of
            None \<Rightarrow> cfg_handlers (initial_logconfig level_root)
          | Some p \<Rightarrow>
              if p \<noteq> [] then
                (cfg_handlers (initial_logconfig level_root))(''info_rotating_file_handler'' \<mapsto>
                   file_handler_entry p)
              else cfg_handlers (initial_logconfig level_root))"
  using assms
  by (auto simp: get_logconfig_dict_def Let_def split: option.splits sum.splits list.splits if_splits)

text \<open>
  Claim C5. When some value of \<open>level_dict\<close> is not a list, \<open>get_logconfig_dict\<close> raises
  \<open>TypeError\<close> and returns no dictionary; \<open>set_default_logconfig\<close>, which is where the global
  logging state would be changed, then returns that error with the state as it was, whatever
  \<open>dictConfig\<close> does.
\<close>

theorem get_logconfig_dict_rejects_non_list:
  assumes "(lv, v) \<in> set ld" and "\<not> is_list v"
  shows "get_logconfig_dict level_root (Some ld) log_filepath =
           Inl (TypeError ''Level_dict should provide lists.'')
         \<and> set_default_logconfig dictConfig g level_root (Some ld) log_filepath =
           (Inl (TypeError ''Level_dict should provide lists.''), g)"
  using get_logconfig_dict_error [OF assms]
  by (simp add: set_default_logconfig_def)

theorem get_logconfig_dict_rejects_non_list_witness:
  "(''INFO'', PyStr ''app'') \<in> set [(''DEBUG'', PyList [''lib'']), (''INFO'', PyStr ''app'')]
   \<and> \<not> is_list (PyStr ''app'')
   \<and> get_logconfig_dict ''WARNING'' (Some [(''DEBUG'', PyList [''lib'']), (''INFO'', PyStr ''app'')])
        (Some ''/tmp/x.log'') = Inl (TypeError ''Level_dict should provide lists.'')
   \<and> set_default_logconfig (\<lambda>g cfg. Suc g) (0::nat) ''WARNING''
        (Some [(''DEBUG'', PyList [''lib'']), (''INFO'', PyStr ''app'')]) (Some ''/tmp/x.log'')
      = (Inl (TypeError ''Level_dict should provide lists.''), 0)"
proof -
  have m: "(''INFO'', PyStr ''app'') \<in> set [(''DEBUG'', PyList [''lib'']), (''INFO'', PyStr ''app'')]"
    by simp
  have n: "\<not> is_list (PyStr ''app'')" by simp
  show ?thesis
    using m n get_logconfig_dict_rejects_non_list [OF m n, of "''WARNING''" "Some ''/tmp/x.log''"
        "\<lambda>g cfg. Suc g" "0::nat"]
    by simp
qed

text \<open>
  Claim C6. Whenever \<open>get_logconfig_dict\<close> returns a dictionary: with a (non-empty) log file
  path its handlers table holds, under \<open>info_rotating_file_handler\<close>, a
  \<open>TimedRotatingFileHandler\<close> for that path with \<open>when = D\<close>, \<open>backupCount = 7\<close> and level
  \<open>INFO\<close>; with no path the table has no such key. The function does return a dictionary
  when every value of \<open>level_dict\<close> is a list (and when \<open>level_dict\<close> is \<open>None\<close>).
\<close>

theorem get_logconfig_dict_file_handler:
  "(get_logconfig_dict level_root level_dict (Some p) = Inr cfg \<and> p \<noteq> [] \<longrightarrow>
      (\<exists>e. cfg_handlers cfg ''info_rotating_file_handler'' = Some e
         \<and> e ''class'' = Some (CStr ''logging.handlers.TimedRotatingFileHandler'')
         \<and> e ''filename'' = Some (CStr p)
         \<and> e ''when'' = Some (CStr ''D'')
         \<and> e ''backupCount'' = Some (CInt 7)
         \<and> e ''level'' = Some (CStr ''INFO'')))
   \<and> (get_logconfig_dict level_root level_dict None = Inr cfg' \<longrightarrow>
        ''info_rotating_file_handler'' \<notin> dom (cfg_handlers cfg'))
   \<and> (\<exists>c. get_logconfig_dict level_root None log_filepath = Inr c)
   \<and> ((\<forall>(lv, v) \<in> set ld. is_list v) \<longrightarrow>
        (\<exists>c. get_logconfig_dict level_root (Some ld) log_filepath = Inr c))"
proof (intro conjI impI)
  assume a: "get_logconfig_dict level_root level_dict (Some p) = Inr cfg \<and> p \<noteq> []"
  then have "cfg_handlers cfg ''info_rotating_file_handler'' = Some (file_handler_entry p)"
    using get_logconfig_dict_handlers [of level_root level_dict "Some p" cfg] by simp
  then show "\<exists>e. cfg_handlers cfg ''info_rotating_file_handler'' = Some e
         \<and> e ''class'' = Some (CStr ''logging.handlers.TimedRotatingFileHandler'')
         \<and> e ''filename'' = Some (CStr p)
         \<and> e ''when'' = Some (CStr ''D'')
         \<and> e ''backupCount'' = Some (CInt 7)
         \<and> e ''level'' = Some (CStr ''INFO'')"
    by (simp add: file_handler_entry_def)
next
  assume "get_logconfig_dict level_root level_dict None = Inr cfg'"
  then have "cfg_handlers cfg' = cfg_handlers (initial_logconfig level_root)"
    using get_logconfig_dict_handlers [of level_root level_dict None cfg'] by simp
  then show "''info_rotating_file_handler'' \<notin> dom (cfg_handlers cfg')"
    by (simp add: initial_logconfig_def dom_def)
next
  show "\<exists>c. get_logconfig_dict level_root None log_filepath = Inr c"
    by (simp add: get_logconfig_dict_def Let_def split: option.splits)
next
  assume "\<forall>(lv, v) \<in> set ld. is_list v"
  then show "\<exists>c. get_logconfig_dict level_root (Some ld) log_filepath = Inr c"
    by (rule get_logconfig_dict_ok)
qed

theorem get_logconfig_dict_file_handler_witness:
  "get_logconfig_dict ''WARNING'' None (Some ''/tmp/x.log'') =
     Inr ((initial_logconfig ''WARNING'')\<lparr>cfg_handlers :=
            (cfg_handlers (initial_logconfig ''WARNING''))(''info_rotating_file_handler'' \<mapsto>
               file_handler_entry ''/tmp/x.log'')\<rparr>)
   \<and> file_handler_entry ''/tmp/x.log'' ''backupCount'' = Some (CInt 7)
   \<and> file_handler_entry ''/tmp/x.log'' ''when'' = Some (CStr ''D'')
   \<and> file_handler_entry ''/tmp/x.log'' ''level'' = Some (CStr ''INFO'')
   \<and> get_logconfig_dict ''WARNING'' None None = Inr (initial_logconfig ''WARNING'')
   \<and> ''info_rotating_file_handler'' \<notin> dom (cfg_handlers (initial_logconfig ''WARNING''))"
proof -
  let ?C = "(initial_logconfig ''WARNING'')\<lparr>cfg_handlers :=
            (cfg_handlers (initial_logconfig ''WARNING''))(''info_rotating_file_handler'' \<mapsto>
               file_handler_entry ''/tmp/x.log'')\<rparr>"
  have a: "get_logconfig_dict ''WARNING'' None (Some ''/tmp/x.log'') = Inr ?C"
    by (simp add: get_logconfig_dict_def Let_def)
  have b: "get_logconfig_dict ''WARNING'' None None = Inr (initial_logconfig ''WARNING'')"
    by (simp add: get_logconfig_dict_def Let_def)
  have c: "''/tmp/x.log'' \<noteq> []" by simp
  from get_logconfig_dict_file_handler [of "''WARNING''" None "''/tmp/x.log''" ?C
      "initial_logconfig ''WARNING''" None "[]"] a b c
  have "(\<exists>e. cfg_handlers ?C ''info_rotating_file_handler'' = Some e
         \<and> e ''class'' = Some (CStr ''logging.handlers.TimedRotatingFileHandler'')
         \<and> e ''filename'' = Some (CStr ''/tmp/x.log'')
         \<and> e ''when'' = Some (CStr ''D'')
         \<and> e ''backupCount'' = Some (CInt 7)
         \<and> e ''level'' = Some (CStr ''INFO''))"
    and d: "''info_rotating_file_handler'' \<notin> dom (cfg_handlers (initial_logconfig ''WARNING''))"
    by blast+
  then have "file_handler_entry ''/tmp/x.log'' ''backupCount'' = Some (CInt 7)
   \<and> file_handler_entry ''/tmp/x.log'' ''when'' = Some (CStr ''D'')
   \<and> file_handler_entry ''/tmp/x.log'' ''level'' = Some (CStr ''INFO'')"
    by simp
  with a b d show ?thesis by blast
qed

lemma add_pkgs_apply:
  "add_pkgs lv pkgs L pkg = (if pkg \<in> set pkgs then Some (level_entry lv) else L pkg)"
  by (induction pkgs arbitrary: L) auto

lemma apply_levels_final:
  "apply_levels ld L = Inr L' \<Longrightarrow>
   L' pkg = (case final_level ld pkg of Some l \<Rightarrow> Some (level_entry l) | None \<Rightarrow> L pkg)"
proof (induction ld arbitrary: L)
  case Nil
  then show ?case by simp
next
  case (Cons a ld)
  obtain k w where a: "a = (k, w)" by (cases a)
  from Cons.prems a obtain pkgs where w: "w = PyList pkgs"
    by (cases w) auto
  from Cons.prems have "apply_levels ld (add_pkgs k pkgs L) = Inr L'"
    by (simp add: a w)
  from Cons.IH [OF this] show ?case
    by (simp add: a w add_pkgs_apply split: option.splits)
qed

lemma final_level_None:
  "final_level ld pkg = None \<longleftrightarrow> (\<forall>lv pkgs. (lv, PyList pkgs) \<in> set ld \<longrightarrow> pkg \<notin> set pkgs)"
proof (induction ld)
  case Nil
  then show ?case by simp
next
  case (Cons a ld)
  obtain k w where a: "a = (k, w)" by (cases a)
  show ?case using Cons.IH
    by (cases w) (auto simp: a split: option.splits)
qed

lemma final_level_Some:
  "final_level ld pkg = Some lv \<Longrightarrow> \<exists>pkgs. (lv, PyList pkgs) \<in> set ld \<and> pkg \<in> set pkgs"
proof (induction ld)
  case Nil
  then show ?case by simp
next
  case (Cons a ld)
  obtain k w where a: "a = (k, w)" by (cases a)
  show ?case using Cons
    by (cases w) (auto simp: a split: option.splits if_splits)
qed

lemma final_level_unique:
  assumes "(lv, PyList pkgs) \<in> set ld" and "pkg \<in> set pkgs"
    and "\<forall>lv' pkgs'. (lv', PyList pkgs') \<in> set ld \<and> pkg \<in> set pkgs' \<longrightarrow> lv' = lv"
  shows "final_level ld pkg = Some lv"
proof (cases "final_level ld pkg")
  case None
  with assms(1,2) show ?thesis by (auto simp: final_level_None)
next
  case (Some l)
  from final_level_Some [OF this] assms(3) show ?thesis using Some by auto
qed

lemma get_logconfig_dict_loggers:
  assumes "get_logconfig_dict level_root (Some ld) log_filepath = Inr cfg"
  shows "cfg_loggers cfg pkg =
         (case final_level ld pkg of
            Some l \<Rightarrow> Some (level_entry l)
          | None \<Rightarrow> cfg_loggers (initial_logconfig level_root) pkg)"
proof (cases ld)
  case Nil
  with assms show ?thesis
    by (auto simp: get_logconfig_dict_def Let_def split: option.splits if_splits)
next
  case (Cons a rest)
  with assms obtain L' where L: "apply_levels ld (cfg_loggers (initial_logconfig level_root)) = Inr L'"
    and c: "cfg_loggers cfg = L'"
    by (auto simp: get_logconfig_dict_def Let_def split: option.splits if_splits sum.splits)
  from apply_levels_final [OF L, of pkg] c show ?thesis by simp
qed

text \<open>
  Claim C8, as stated, fails in two places. With \<open>level_root = INFO\<close> and
  \<open>level_dict = {DEBUG: [app, ""], ERROR: [app]}\<close>, every value a list: the root entry (the
  empty name) is overwritten by the override that lists the empty name, and ends with
  level \<open>DEBUG\<close>, not \<open>INFO\<close>; and \<open>app\<close>, listed under \<open>DEBUG\<close>, ends with level \<open>ERROR\<close>,
  the later of the two keys that list it.
\<close>

theorem get_logconfig_dict_overrides_counterexample:
  "result_level (get_logconfig_dict ''INFO''
       (Some [(''DEBUG'', PyList [''app'', []]), (''ERROR'', PyList [''app''])]) None) [] =
     Some (CStr ''DEBUG'')
   \<and> result_level (get_logconfig_dict ''INFO''
       (Some [(''DEBUG'', PyList [''app'', []]), (''ERROR'', PyList [''app''])]) None) ''app'' =
     Some (CStr ''ERROR'')"
  by (simp add: result_level_def get_logconfig_dict_def Let_def initial_logconfig_def level_entry_def)

text \<open>
  Claim C8, amended. When every value of \<open>level_dict\<close> is a list, \<open>get_logconfig_dict\<close>
  returns a dictionary in which
  \<^item> the root entry has level \<open>level_root\<close> and the handlers \<open>debug_console_handler\<close> and
    \<open>stderr\<close>, both keys of the handlers table, provided the empty name is not listed as a
    package;
  \<^item> a listed package has an entry holding just the level of the last key that lists it,
    which is the key it is listed under when there is only one;
  \<^item> any other name has no entry.
\<close>

theorem get_logconfig_dict_reflects_inputs:
  assumes "\<forall>(lv, v) \<in> set ld. is_list v"
  shows "\<exists>cfg. get_logconfig_dict level_root (Some ld) log_filepath = Inr cfg
     \<and> ((\<forall>lv pkgs. (lv, PyList pkgs) \<in> set ld \<longrightarrow> [] \<notin> set pkgs) \<longrightarrow>
          cfg_loggers cfg [] =
            Some [''level'' \<mapsto> CStr level_root,
                  ''handlers'' \<mapsto> CList [''debug_console_handler'', ''stderr'']]
          \<and> ''debug_console_handler'' \<in> dom (cfg_handlers cfg)
          \<and> ''stderr'' \<in> dom (cfg_handlers cfg))
     \<and> (\<forall>pkg l. final_level ld pkg = Some l \<longrightarrow> cfg_loggers cfg pkg = Some (level_entry l))
     \<and> (\<forall>pkg lv pkgs.
          (lv, PyList pkgs) \<in> set ld \<and> pkg \<in> set pkgs
          \<and> (\<forall>lv' pkgs'. (lv', PyList pkgs') \<in> set ld \<and> pkg \<in> set pkgs' \<longrightarrow> lv' = lv) \<longrightarrow>
          cfg_loggers cfg pkg = Some (level_entry lv))
     \<and> (\<forall>pkg. pkg \<noteq> [] \<and> (\<forall>lv pkgs. (lv, PyList pkgs) \<in> set ld \<longrightarrow> pkg \<notin> set pkgs) \<longrightarrow>
          cfg_loggers cfg pkg = None)"
proof -
  obtain cfg where cfg: "get_logconfig_dict level_root (Some ld) log_filepath = Inr cfg"
    using get_logconfig_dict_ok [OF assms] by blast
  note lg = get_logconfig_dict_loggers [OF cfg]
  note hd = get_logconfig_dict_handlers [OF cfg]
  have root: "(\<forall>lv pkgs. (lv, PyList pkgs) \<in> set ld \<longrightarrow> [] \<notin> set pkgs) \<longrightarrow>
          cfg_loggers cfg [] =
            Some [''level'' \<mapsto> CStr level_root,
                  ''handlers'' \<mapsto> CList [''debug_console_handler'', ''stderr'']]"
    using lg [of "[]"] final_level_None [of ld "[]"]
    by (auto simp: initial_logconfig_def)
  have tab: "''debug_console_handler'' \<in> dom (cfg_handlers cfg) \<and> ''stderr'' \<in> dom (cfg_handlers cfg)"
    unfolding hd by (simp add: initial_logconfig_def dom_def split: option.splits)
  have listed: "\<forall>pkg l. final_level ld pkg = Some l \<longrightarrow> cfg_loggers cfg pkg = Some (level_entry l)"
    using lg by simp
  have uniq: "\<forall>pkg lv pkgs.
          (lv, PyList pkgs) \<in> set ld \<and> pkg \<in> set pkgs
          \<and> (\<forall>lv' pkgs'. (lv', PyList pkgs') \<in> set ld \<and> pkg \<in> set pkgs' \<longrightarrow> lv' = lv) \<longrightarrow>
          cfg_loggers cfg pkg = Some (level_entry lv)"
  proof (intro allI impI)
    fix pkg lv pkgs
    assume h: "(lv, PyList pkgs) \<in> set ld \<and> pkg \<in> set pkgs
          \<and> (\<forall>lv' pkgs'. (lv', PyList pkgs') \<in> set ld \<and> pkg \<in> set pkgs' \<longrightarrow> lv' = lv)"
    then have "final_level ld pkg = Some lv"
      using final_level_unique [of lv pkgs ld pkg] by blast
    with listed show "cfg_loggers cfg pkg = Some (level_entry lv)" by blast
  qed
  have other: "\<forall>pkg. pkg \<noteq> [] \<and> (\<forall>lv pkgs. (lv, PyList pkgs) \<in> set ld \<longrightarrow> pkg \<notin> set pkgs) \<longrightarrow>
          cfg_loggers cfg pkg = None"
  proof (intro allI impI)
    fix pkg
    assume h: "pkg \<noteq> [] \<and> (\<forall>lv pkgs. (lv, PyList pkgs) \<in> set ld \<longrightarrow> pkg \<notin> set pkgs)"
    then have "final_level ld pkg = None" by (simp add: final_level_None)
    with lg [of pkg] h show "cfg_loggers cfg pkg = None"
      by (simp add: initial_logconfig_def)
  qed
  from cfg root tab listed uniq other show ?thesis by blast
qed

theorem get_logconfig_dict_reflects_inputs_witness:
  "is_list (PyList [''app''])
   \<and> result_level (get_logconfig_dict ''INFO'' (Some [(''DEBUG'', PyList [''app''])]) None) [] =
       Some (CStr ''INFO'')
   \<and> result_level (get_logconfig_dict ''INFO'' (Some [(''DEBUG'', PyList [''app''])]) None) ''app'' =
       Some (CStr ''DEBUG'')"
proof -
  let ?ld = "[(''DEBUG'', PyList [''app''])]"
  have v: "\<forall>(lv, v) \<in> set ?ld. is_list v" by simp
  from get_logconfig_dict_reflects_inputs [OF v, of "''INFO''" None]
  obtain cfg where cfg: "get_logconfig_dict ''INFO'' (Some ?ld) None = Inr cfg"
    and root: "(\<forall>lv pkgs. (lv, PyList pkgs) \<in> set ?ld \<longrightarrow> [] \<notin> set pkgs) \<longrightarrow>
          cfg_loggers cfg [] =
            Some [''level'' \<mapsto> CStr ''INFO'',
                  ''handlers'' \<mapsto> CList [''debug_console_handler'', ''stderr'']]"
    and listed: "\<forall>pkg l. final_level ?ld pkg = Some l \<longrightarrow> cfg_loggers cfg pkg = Some (level_entry l)"
    by blast
  have "final_level ?ld ''app'' = Some ''DEBUG''" by simp
  with listed have app: "cfg_loggers cfg ''app'' = Some (level_entry ''DEBUG'')" by blast
  from root have r: "cfg_loggers cfg [] =
            Some [''level'' \<mapsto> CStr ''INFO'',
                  ''handlers'' \<mapsto> CList [''debug_console_handler'', ''stderr'']]" by simp
  show ?thesis
    by (simp add: result_level_def cfg app r level_entry_def)
qed






section \<open>Properties of the name rewriting of get_logger\<close>





















lemma lname_add_or_update [simp]:
  "lname (add_or_update_streamhandler_format lg f d) = lname lg"
  by (simp add: add_or_update_streamhandler_format_def addHandler_def split: option.splits)





section \<open>Properties of the console handler helper\<close>



lemma isinstance_StreamHandler_formatter [simp]:
  "isinstance_StreamHandler (h\<lparr>formatter := x\<rparr>) = isinstance_StreamHandler h"
  by (simp add: isinstance_StreamHandler_def)

lemma is_console_formatter [simp]: "is_console (h\<lparr>formatter := x\<rparr>) = is_console h"
  by (simp add: is_console_def)





lemma new_StreamHandler_console [simp]:
  "is_console new_StreamHandler" "isinstance_StreamHandler new_StreamHandler"
  by (simp_all add: is_console_def isinstance_StreamHandler_def new_StreamHandler_def)









section \<open>Properties of add_file_handler\<close>







text \<open>
  Claim C3 against the code. The branches of \<open>if rotate\<close> are the other way round: with
  \<open>rotate\<close> set the new sink is a plain \<open>FileHandler\<close> in the given mode, with no rotation;
  with \<open>rotate\<close> not set (the default) it is a \<open>RotatingFileHandler\<close> with 10 MiB per file
  and 5 backups.
\<close>

theorem add_file_handler_rotate:
  "add_file_handler abspath \<lparr>lname = n, level = l, handlers = []\<rparr> fp
     (default_args\<lparr>rotate := True\<rparr>) =
     Inr \<lparr>lname = n, level = l, handlers =
            [\<lparr>hclass = FileHandler, hlevel = l,
              formatter = Some (LOGFORMAT, ''%Y-%m-%d %H:%M:%S''), filters = [],
              stream_name = Some (abspath (str_of fp)), mode = Some ''a'', rotation = None\<rparr>]\<rparr>
   \<and> add_file_handler abspath \<lparr>lname = n, level = l, handlers = []\<rparr> fp
     (default_args\<lparr>rotate := False\<rparr>) =
     Inr \<lparr>lname = n, level = l, handlers =
            [\<lparr>hclass = RotatingFileHandler, hlevel = l,
              formatter = Some (LOGFORMAT, ''%Y-%m-%d %H:%M:%S''), filters = [],
              stream_name = Some (abspath (str_of fp)), mode = Some ''a'',
              rotation = Some (10 * 1024 * 1024, 5)\<rparr>]\<rparr>"
  by (simp add: add_file_handler_def default_args_def remove_existing.simps
      new_RotatingFileHandler_def new_FileHandler_def addHandler_def)

text \<open>
  Claim C1 against the code. With the path given as a \<open>str\<close>, the comparison
  \<open>Path(handler.stream.name) == filepath\<close> is never true and nothing is removed: two calls
  on a logger without handlers leave two file sinks on the same file. And where two sinks
  on one file stand next to each other, the loop removes the first and skips the second
  (the list shrinks under the iterator), so that two further calls, now with a \<open>Path\<close>,
  still leave two sinks on the file.
\<close>

theorem add_file_handler_twice:
  "and_then (add_file_handler abspath \<lparr>lname = n, level = l, handlers = []\<rparr> (StrPath P) default_args)
     (\<lambda>lg. add_file_handler abspath lg (StrPath P) default_args) =
     Inr \<lparr>lname = n, level = l, handlers =
            [\<lparr>hclass = RotatingFileHandler, hlevel = l,
              formatter = Some (LOGFORMAT, ''%Y-%m-%d %H:%M:%S''), filters = [],
              stream_name = Some (abspath P), mode = Some ''a'', rotation = Some (10485760, 5)\<rparr>,
             \<lparr>hclass = RotatingFileHandler, hlevel = l,
              formatter = Some (LOGFORMAT, ''%Y-%m-%d %H:%M:%S''), filters = [],
              stream_name = Some (abspath P), mode = Some ''a'', rotation = Some (10485760, 5)\<rparr>]\<rparr>
   \<and> length (file_sinks_at (abspath P)
       \<lparr>lname = n, level = l, handlers =
            [\<lparr>hclass = RotatingFileHandler, hlevel = l,
              formatter = Some (LOGFORMAT, ''%Y-%m-%d %H:%M:%S''), filters = [],
              stream_name = Some (abspath P), mode = Some ''a'', rotation = Some (10485760, 5)\<rparr>,
             \<lparr>hclass = RotatingFileHandler, hlevel = l,
              formatter = Some (LOGFORMAT, ''%Y-%m-%d %H:%M:%S''), filters = [],
              stream_name = Some (abspath P), mode = Some ''a'', rotation = Some (10485760, 5)\<rparr>]\<rparr>) = 2
   \<and> and_then
       (add_file_handler id
          \<lparr>lname = ''app'', level = 0, handlers =
            [\<lparr>hclass = RotatingFileHandler, hlevel = 0,
              formatter = Some (LOGFORMAT, ''%Y-%m-%d %H:%M:%S''), filters = [],
              stream_name = Some ''/tmp/x.log'', mode = Some ''a'', rotation = Some (10485760, 5)\<rparr>,
             \<lparr>hclass = RotatingFileHandler, hlevel = 0,
              formatter = Some (LOGFORMAT, ''%Y-%m-%d %H:%M:%S''), filters = [],
              stream_name = Some ''/tmp/x.log'', mode = Some ''a'', rotation = Some (10485760, 5)\<rparr>]\<rparr>
          (PathObj ''/tmp/x.log'') default_args)
       (\<lambda>lg. add_file_handler id lg (PathObj ''/tmp/x.log'') default_args) =
     Inr \<lparr>lname = ''app'', level = 0, handlers =
            [\<lparr>hclass = RotatingFileHandler, hlevel = 0,
              formatter = Some (LOGFORMAT, ''%Y-%m-%d %H:%M:%S''), filters = [],
              stream_name = Some ''/tmp/x.log'', mode = Some ''a'', rotation = Some (10485760, 5)\<rparr>,
             \<lparr>hclass = RotatingFileHandler, hlevel = 0,
              formatter = Some (LOGFORMAT, ''%Y-%m-%d %H:%M:%S''), filters = [],
              stream_name = Some ''/tmp/x.log'', mode = Some ''a'', rotation = Some (10485760, 5)\<rparr>]\<rparr>"
  by (simp add: and_then_def add_file_handler_def default_args_def remove_existing.simps
      new_RotatingFileHandler_def addHandler_def isinstance_FileHandler_def file_sinks_at_def
      remove_at_def)

end
